theory Spec2Isabelle
  imports Complex_Main "HOL-Library.Word"
begin

section \<open>JavaScript values used by the transcript client\<close>

text \<open>
  The client is a React component. Its handlers are embedded as functions on a record of
  the component's state. Text shown to the user, file names and header values are
  \<^typ>\<open>string\<close>; the speaker identifiers are lists of UTF-16 code units, because
  \<^verbatim>\<open>String.prototype.trim\<close> strips code units above \<open>0xFF\<close> as well.
  A JavaScript number that holds a duration is an exact real here (binary rounding is
  not part of the model); \<^verbatim>\<open>null\<close> and \<^verbatim>\<open>undefined\<close> are both \<open>None\<close>.
\<close>

subsection \<open>Numbers to text\<close>

definition digit_char :: "nat \<Rightarrow> char" where
  "digit_char d = ''0123456789'' ! d"

fun dec :: "nat \<Rightarrow> string" where
  "dec n = (if n < 10 then [digit_char n] else dec (n div 10) @ [digit_char (n mod 10)])"

declare dec.simps [simp del]

definition js_string_of_int :: "int \<Rightarrow> string" where
  \<comment> \<open>\<^verbatim>\<open>String(n)\<close> and \<^verbatim>\<open>n.toString()\<close> for an integer-valued number below \<open>10^21\<close>\<close>
  "js_string_of_int i = (if i < 0 then CHR ''-'' # dec (nat (- i)) else dec (nat i))"

definition padStart :: "nat \<Rightarrow> char \<Rightarrow> string \<Rightarrow> string" where
  \<comment> \<open>\<^verbatim>\<open>s.padStart(n, c)\<close> with a one-character filler\<close>
  "padStart n c s = replicate (n - length s) c @ s"

fun join :: "string \<Rightarrow> string list \<Rightarrow> string" where
  "join sep [] = []"
| "join sep [x] = x"
| "join sep (x # y # ys) = x @ sep @ join sep (y # ys)"

definition js_rem :: "int \<Rightarrow> int \<Rightarrow> int" where
  \<comment> \<open>\<^verbatim>\<open>a % b\<close> on integer-valued numbers, \<open>b \<noteq> 0\<close>: the sign follows the dividend\<close>
  "js_rem a b = sgn a * (\<bar>a\<bar> mod \<bar>b\<bar>)"

definition js_trunc :: "real \<Rightarrow> int" where
  "js_trunc x = (if x < 0 then \<lceil>x\<rceil> else \<lfloor>x\<rfloor>)"

definition js_fmod :: "real \<Rightarrow> real \<Rightarrow> real" where
  \<comment> \<open>\<^verbatim>\<open>a % b\<close> on numbers, \<open>b \<noteq> 0\<close>\<close>
  "js_fmod a b = a - b * of_int (js_trunc (a / b))"

subsection \<open>Duration formatters\<close>

text \<open>
  \<^verbatim>\<open>hhmmss\<close> of the presigned-upload client:
  \<^verbatim>\<open>[3600, 60, 1].map((d) => String(Math.floor(seconds / d) % 60).padStart(2, "0")).join(":")\<close>
\<close>

definition hhmmss :: "real \<Rightarrow> string" where
  "hhmmss seconds =
     join '':''
       (map (\<lambda>d. padStart 2 CHR ''0'' (js_string_of_int (js_rem \<lfloor>seconds / d\<rfloor> 60)))
          [3600, 60, 1])"

text \<open>\<^verbatim>\<open>formatDuration\<close> of the transcoding client.\<close>

definition formatDuration :: "real \<Rightarrow> string" where
  "formatDuration seconds =
     (let hours = \<lfloor>seconds / 3600\<rfloor>;
          minutes = \<lfloor>js_fmod seconds 3600 / 60\<rfloor>;
          secs = \<lfloor>js_fmod seconds 60\<rfloor>
      in padStart 2 CHR ''0'' (js_string_of_int hours) @ '':'' @
         padStart 2 CHR ''0'' (js_string_of_int minutes) @ '':'' @
         padStart 2 CHR ''0'' (js_string_of_int secs))"

text \<open>
  The rendering the specification describes: \<open>\<lfloor>s/3600\<rfloor>\<close> hours, \<open>\<lfloor>s/60\<rfloor> mod 60\<close> minutes
  and \<open>\<lfloor>s\<rfloor> mod 60\<close> seconds, each padded to two digits.
\<close>

definition spec_HHMMSS :: "real \<Rightarrow> string" where
  "spec_HHMMSS s =
     padStart 2 CHR ''0'' (dec (nat \<lfloor>s / 3600\<rfloor>)) @ '':'' @
     padStart 2 CHR ''0'' (dec (nat (\<lfloor>s / 60\<rfloor> mod 60))) @ '':'' @
     padStart 2 CHR ''0'' (dec (nat (\<lfloor>s\<rfloor> mod 60)))"

subsection \<open>Truthiness, trimming and \<^verbatim>\<open>parseInt\<close>\<close>

definition truthy :: "string option \<Rightarrow> bool" where
  \<comment> \<open>a string-or-null value in a condition: \<^verbatim>\<open>null\<close>, \<^verbatim>\<open>undefined\<close> and \<^verbatim>\<open>""\<close> are falsy\<close>
  "truthy v = (case v of None \<Rightarrow> False | Some s \<Rightarrow> s \<noteq> [])"

definition or_else :: "string option \<Rightarrow> string \<Rightarrow> string" where
  \<comment> \<open>\<^verbatim>\<open>v || d\<close> with a string default\<close>
  "or_else v d = (case v of None \<Rightarrow> d | Some s \<Rightarrow> if s = [] then d else s)"

type_synonym ustring = "16 word list"

definition js_whitespace :: "16 word \<Rightarrow> bool" where
  \<comment> \<open>ECMAScript WhiteSpace and LineTerminator code units\<close>
  "js_whitespace c =
     (c \<in> {0x09, 0x0A, 0x0B, 0x0C, 0x0D, 0x20, 0xA0, 0x1680, 0x2028, 0x2029,
            0x202F, 0x205F, 0x3000, 0xFEFF}
      \<or> (0x2000 \<le> c \<and> c \<le> 0x200A))"

definition trim :: "ustring \<Rightarrow> ustring" where
  "trim s = rev (dropWhile js_whitespace (rev (dropWhile js_whitespace s)))"

datatype jsnum = Num int | NaN

definition is_digit :: "char \<Rightarrow> bool" where
  "is_digit c = (c \<in> set ''0123456789'')"

definition digit_val :: "char \<Rightarrow> nat" where
  "digit_val c = of_char c - 48"

definition parseInt10 :: "string \<Rightarrow> jsnum" where
  \<comment> \<open>\<^verbatim>\<open>parseInt(v, 10)\<close>: leading white space, an optional sign, then the longest run of
      decimal digits; \<^verbatim>\<open>NaN\<close> when that run is empty\<close>
  "parseInt10 v =
     (let t = dropWhile (\<lambda>c. js_whitespace (of_char c)) v;
          neg = (take 1 t = ''-'');
          r = (if take 1 t = ''-'' \<or> take 1 t = ''+'' then drop 1 t else t);
          ds = takeWhile is_digit r
      in if ds = [] then NaN
         else Num ((if neg then - 1 else 1) * int (foldl (\<lambda>a c. 10 * a + digit_val c) 0 ds)))"

definition js_max1 :: "jsnum \<Rightarrow> jsnum" where
  \<comment> \<open>\<^verbatim>\<open>Math.max(1, x)\<close>\<close>
  "js_max1 x = (case x of NaN \<Rightarrow> NaN | Num n \<Rightarrow> Num (max 1 n))"

definition or_one :: "jsnum \<Rightarrow> jsnum" where
  \<comment> \<open>\<^verbatim>\<open>x || 1\<close>: \<^verbatim>\<open>NaN\<close> and \<open>0\<close> are falsy\<close>
  "or_one x = (case x of NaN \<Rightarrow> Num 1 | Num n \<Rightarrow> if n = 0 then Num 1 else Num n)"

definition js_gt_length :: "jsnum \<Rightarrow> 'a list \<Rightarrow> bool" where
  \<comment> \<open>\<^verbatim>\<open>n > xs.length\<close>; every comparison with \<^verbatim>\<open>NaN\<close> is false\<close>
  "js_gt_length x xs = (case x of NaN \<Rightarrow> False | Num n \<Rightarrow> n > int (length xs))"

definition slice0 :: "'a list \<Rightarrow> jsnum \<Rightarrow> 'a list" where
  \<comment> \<open>\<^verbatim>\<open>xs.slice(0, n)\<close>: \<^verbatim>\<open>NaN\<close> is 0, a negative end counts from the back\<close>
  "slice0 xs x =
     (case x of NaN \<Rightarrow> []
      | Num n \<Rightarrow> if n < 0 then take (nat (int (length xs) + n)) xs else take (nat n) xs)"

datatype crash = RangeError

text \<open>
  The updater all three clients pass to \<^verbatim>\<open>setSpeakerNames\<close>. \<^verbatim>\<open>Array(k)\<close> throws a
  \<^verbatim>\<open>RangeError\<close> when \<open>k\<close> is above \<open>2\<^sup>3\<^sup>2 - 1\<close>. Nothing catches it: the render in
  which React runs the updater fails and the page is torn down, so there is no next state.
  Below that bound the model builds the list whatever its length; an engine may run out
  of memory first.
\<close>

definition resize_names :: "jsnum \<Rightarrow> ustring list \<Rightarrow> crash + ustring list" where
  "resize_names x prev =
     (if js_gt_length x prev
      then (case x of
              Num n \<Rightarrow>
                if n - int (length prev) > 4294967295 then Inl RangeError
                else Inr (prev @ replicate (nat (n - int (length prev))) [])
            | NaN \<Rightarrow> Inr prev)
      else Inr (slice0 prev x))"

section \<open>Component state\<close>

record asset =
  file_name :: string
  mime_type :: string
  payload :: "8 word list"

record turn =
  speaker :: string
  turn_text :: string

type_synonym case_info = "string \<rightharpoonup> string"

text \<open>The \<^verbatim>\<open>useState\<close> cells the three clients share.\<close>

record session =
  file' :: "asset option"  \<comment> \<open>the cell \<^verbatim>\<open>file\<close>\<close>
  caseInfo :: case_info
  specifySpeakers :: bool
  numSpeakers :: jsnum
  speakerNames :: "ustring list"
  isProcessing :: bool
  transcriptTurns :: "turn list option"
  error :: "string option"
  statusMessage :: string
  geminiFileName :: "string option"
  audioDuration :: "string option"

text \<open>The presigned-upload client (\<^verbatim>\<open>frontend/src/app/page.tsx\<close>) also keeps the object key.\<close>

record presigned_session = session +
  r2ObjectKey :: "string option"

text \<open>The transcoding client also keeps whether the FFmpeg engine has loaded.\<close>

record transcoding_session = session +
  ffmpegLoaded :: bool

definition set_speakers :: "jsnum \<Rightarrow> 'a session_scheme \<Rightarrow> crash + 'a session_scheme" where
  \<comment> \<open>\<^verbatim>\<open>setNumSpeakers(n); setSpeakerNames((prev) => ...)\<close>\<close>
  "set_speakers n s =
     (case resize_names n (speakerNames s) of
        Inl c \<Rightarrow> Inl c
      | Inr names \<Rightarrow> Inr (s\<lparr>numSpeakers := n, speakerNames := names\<rparr>))"

section \<open>The outside world\<close>

text \<open>
  A promise either resolves or rejects. A rejection carries the thrown value: an
  \<^verbatim>\<open>Error\<close> object with its message, or another value with its string form.
\<close>

datatype thrown = Error string | Thrown string

datatype 'a awaited = Resolved 'a | Rejected thrown

text \<open>
  The fields the clients read from a JSON body; any of them may be missing.
  \<^verbatim>\<open>json()\<close> rejects with a syntax error when the body is not JSON.
\<close>

record json_body =
  detail :: "string option"
  upload_url :: "string option"
  object_key :: "string option"
  transcript_turns :: "turn list option"
  gemini_file_name :: "string option"
  r2_object_key :: "string option"

datatype parsed = NotJson string | Json json_body

record response =
  status :: nat
  statusText :: string
  content_disposition :: "string option"
  json :: parsed
  blob :: "8 word list"

definition ok :: "response \<Rightarrow> bool" where
  "ok r = (200 \<le> status r \<and> status r \<le> 299)"

datatype probe = Loaded real | Unreadable

record request_data =
  rd_case :: case_info
  speaker_names :: "ustring list option"

record docx_request =
  docx_gemini_file_name :: string
  title_data :: case_info
  docx_transcript_turns :: "turn list"

datatype request =
    GET_generate_r2_presigned string string
  | PUT_upload "string option" string asset
  | POST_transcribe_key request_data "string option"
  | POST_transcribe_audio request_data asset
  | POST_cleanup string "string option"
  | POST_cleanup_r2 string
  | POST_generate_docx docx_request

datatype effect =
    Fetch request
  | Download string "8 word list"
  | WriteFile string asset
  | Exec "string list"
  | ReadFile string
  | ConsoleError string

section \<open>The presigned-upload client\<close>

text \<open>
  A handler that awaits runs in segments. Each segment is a function of the state as it
  is when the segment runs (a \<^verbatim>\<open>setX\<close> call writes the live cell), of the values its
  closure captured when the handler was called, and of what the awaited promise settled
  with. It returns the new state, the requests and downloads it issued, and the locals
  the next segment needs (\<open>None\<close> when the handler is over). A cell that holds
  \<^verbatim>\<open>undefined\<close> is not told apart from one that holds \<^verbatim>\<open>null\<close>.
\<close>

definition ellipsis :: string where
  \<comment> \<open>U+2026 in UTF-8\<close>
  "ellipsis = [CHR 0xE2, CHR 0x80, CHR 0xA6]"

definition handleFileChange :: "asset option \<Rightarrow> presigned_session \<Rightarrow> presigned_session" where
  "handleFileChange f s =
     s\<lparr>file' := f, transcriptTurns := None, error := None, statusMessage := [],
       geminiFileName := None, r2ObjectKey := None, audioDuration := None\<rparr>"

definition changeNumSpeakers :: "string \<Rightarrow> presigned_session \<Rightarrow> crash + presigned_session" where
  "changeNumSpeakers v s =
     (let n = js_max1 (parseInt10 (if v = [] then ''1'' else v))
      in set_speakers n s)"

definition getDuration :: "probe \<Rightarrow> string awaited" where
  "getDuration p =
     (case p of Loaded d \<Rightarrow> Resolved (hhmmss d)
      | Unreadable \<Rightarrow> Rejected (Thrown ''Could not read duration''))"

definition request_data_json :: "presigned_session \<Rightarrow> request_data" where
  "request_data_json s =
     \<lparr>rd_case = caseInfo s,
      speaker_names =
        (if specifySpeakers s then Some (filter (\<lambda>n. trim n \<noteq> []) (speakerNames s))
         else None)\<rparr>"

definition message_of :: "thrown \<Rightarrow> string" where
  \<comment> \<open>\<^verbatim>\<open>err instanceof Error ? err.message : String(err)\<close>\<close>
  "message_of e = (case e of Error m \<Rightarrow> m | Thrown v \<Rightarrow> v)"

definition submit_catch :: "thrown \<Rightarrow> presigned_session \<Rightarrow> presigned_session" where
  \<comment> \<open>the \<^verbatim>\<open>catch\<close> and \<^verbatim>\<open>finally\<close> blocks of \<^verbatim>\<open>handleSubmit\<close>\<close>
  "submit_catch e s =
     s\<lparr>error := Some (message_of e), statusMessage := [], isProcessing := False\<rparr>"

definition submit_begin ::
  "presigned_session \<Rightarrow> (presigned_session \<times> effect list) \<times> asset option" where
  "submit_begin s =
     (case file' s of
        None \<Rightarrow> ((s\<lparr>error := Some ''Choose a file first.''\<rparr>, []), None)
      | Some f \<Rightarrow>
          ((s\<lparr>isProcessing := True, error := None,
              statusMessage := ''Creating secure upload'' @ ellipsis\<rparr>,
            [Fetch (GET_generate_r2_presigned (file_name f) (mime_type f))]),
           Some f))"

text \<open>
  What each of the first three steps of the \<^verbatim>\<open>try\<close> block yields once its request has
  settled: the value the run goes on with, or what is thrown.
\<close>

definition presign_result :: "response awaited \<Rightarrow> thrown + json_body" where
  "presign_result pre =
     (case pre of
        Rejected e \<Rightarrow> Inl e
      | Resolved r \<Rightarrow>
          if \<not> ok r then Inl (Error (''presign '' @ dec (status r)))
          else (case json r of NotJson m \<Rightarrow> Inl (Error m) | Json b \<Rightarrow> Inr b))"

definition upload_result :: "response awaited \<Rightarrow> thrown + unit" where
  "upload_result put =
     (case put of
        Rejected e \<Rightarrow> Inl e
      | Resolved r \<Rightarrow> if \<not> ok r then Inl (Error (''upload '' @ dec (status r))) else Inr ())"

definition transcribe_result :: "response awaited \<Rightarrow> thrown + json_body" where
  \<comment> \<open>\<^verbatim>\<open>tr.json()\<close> is awaited before \<^verbatim>\<open>tr.ok\<close> is looked at\<close>
  "transcribe_result tr =
     (case tr of
        Rejected e \<Rightarrow> Inl e
      | Resolved r \<Rightarrow>
          (case json r of
             NotJson m \<Rightarrow> Inl (Error m)
           | Json tj \<Rightarrow>
               if \<not> ok r then Inl (Error (or_else (detail tj) (statusText r))) else Inr tj))"

definition after_presign ::
  "asset \<Rightarrow> response awaited \<Rightarrow> presigned_session \<Rightarrow>
     (presigned_session \<times> effect list) \<times> string option option" where
  \<comment> \<open>continues with the local \<^verbatim>\<open>object_key\<close>\<close>
  "after_presign f pre s =
     (case presign_result pre of
        Inl e \<Rightarrow> ((submit_catch e s, []), None)
      | Inr b \<Rightarrow>
          ((s\<lparr>statusMessage := ''Uploading file'' @ ellipsis\<rparr>,
            [Fetch (PUT_upload (upload_url b) (mime_type f) f)]),
           Some (object_key b)))"

definition after_upload ::
  "request_data \<Rightarrow> string option \<Rightarrow> response awaited \<Rightarrow> presigned_session \<Rightarrow>
     (presigned_session \<times> effect list) \<times> unit option" where
  \<comment> \<open>\<open>rd\<close> is the request document built from the cells the closure captured\<close>
  "after_upload rd key put s =
     (case upload_result put of
        Inl e \<Rightarrow> ((submit_catch e s, []), None)
      | Inr _ \<Rightarrow>
          ((s\<lparr>statusMessage := ''Requesting transcript'' @ ellipsis\<rparr>,
            [Fetch (POST_transcribe_key rd key)]),
           Some ()))"

definition after_transcribe ::
  "string option \<Rightarrow> response awaited \<Rightarrow> presigned_session \<Rightarrow>
     (presigned_session \<times> effect list) \<times> unit option" where
  "after_transcribe key tr s =
     (case transcribe_result tr of
        Inl e \<Rightarrow> ((submit_catch e s, []), None)
      | Inr tj \<Rightarrow>
          ((s\<lparr>transcriptTurns := transcript_turns tj,
              geminiFileName := gemini_file_name tj,
              r2ObjectKey := (if truthy (r2_object_key tj) then r2_object_key tj else key),
              statusMessage := ''Calculating duration'' @ ellipsis\<rparr>,
            []),
           Some ()))"

definition after_duration :: "string awaited \<Rightarrow> presigned_session \<Rightarrow> presigned_session" where
  "after_duration d s =
     (case d of
        Rejected e \<Rightarrow> submit_catch e s
      | Resolved txt \<Rightarrow>
          s\<lparr>audioDuration := Some txt, statusMessage := ''Transcription complete!'',
            isProcessing := False\<rparr>)"

text \<open>What each awaited promise of one run of \<^verbatim>\<open>handleSubmit\<close> settles with.\<close>

record submit_env =
  presign_response :: "response awaited"
  upload_response :: "response awaited"
  transcribe_response :: "response awaited"
  duration_probe :: probe

text \<open>
  \<open>handleSubmit_async others env s\<close> runs \<^verbatim>\<open>handleSubmit\<close> from the render whose state is
  \<open>s\<close>. While the handler is suspended at its \<open>k\<close>-th await (\<open>k = 0\<close> the presign request,
  \<open>1\<close> the upload, \<open>2\<close> the transcription request, \<open>3\<close> the duration probe) other code
  may run: handlers the user triggers, continuations of other requests, and the effect
  cleanup React calls after a render (see \<open>commit\<close> below). \<open>others k\<close> is what all of
  that does to the state before the awaited promise settles.
\<close>

definition handleSubmit_async ::
  "(nat \<Rightarrow> presigned_session \<Rightarrow> presigned_session) \<Rightarrow> submit_env \<Rightarrow> presigned_session \<Rightarrow>
     presigned_session \<times> effect list" where
  "handleSubmit_async others env s =
     (case submit_begin s of
        ((s0, e0), None) \<Rightarrow> (s0, e0)
      | ((s0, e0), Some f) \<Rightarrow>
     (case after_presign f (presign_response env) (others 0 s0) of
        ((s1, e1), None) \<Rightarrow> (s1, e0 @ e1)
      | ((s1, e1), Some key) \<Rightarrow>
     (case after_upload (request_data_json s) key (upload_response env) (others 1 s1) of
        ((s2, e2), None) \<Rightarrow> (s2, e0 @ e1 @ e2)
      | ((s2, e2), Some _) \<Rightarrow>
     (case after_transcribe key (transcribe_response env) (others 2 s2) of
        ((s3, e3), None) \<Rightarrow> (s3, e0 @ e1 @ e2 @ e3)
      | ((s3, e3), Some _) \<Rightarrow>
          (after_duration (getDuration (duration_probe env)) (others 3 s3),
           e0 @ e1 @ e2 @ e3)))))"

definition handleSubmit :: "submit_env \<Rightarrow> presigned_session \<Rightarrow> presigned_session \<times> effect list" where
  \<comment> \<open>a run during which nothing else writes the state\<close>
  "handleSubmit env s = handleSubmit_async (\<lambda>k. id) env s"

definition cleanup_request :: "presigned_session \<Rightarrow> effect list" where
  \<comment> \<open>the \<^verbatim>\<open>if\<close> / \<^verbatim>\<open>else if\<close> chain inside the \<^verbatim>\<open>try\<close> of \<^verbatim>\<open>cleanupFiles\<close>\<close>
  "cleanup_request s =
     (if truthy (geminiFileName s) \<and> truthy (r2ObjectKey s)
      then [Fetch (POST_cleanup (the (geminiFileName s)) (r2ObjectKey s))]
      else if truthy (geminiFileName s)
      then [Fetch (POST_cleanup (the (geminiFileName s)) None)]
      else if truthy (r2ObjectKey s)
      then [Fetch (POST_cleanup_r2 (the (r2ObjectKey s)))]
      else [])"

text \<open>
  \<^verbatim>\<open>cleanupFiles\<close> reads the two handles from the render it belongs to (\<open>cl\<close>) and
  writes the live cells. \<open>cleanup_begin\<close> is the part before its \<^verbatim>\<open>await\<close>; its flag
  says whether a request is now awaited. \<open>cleanup_settled\<close> is the part after it. The
  response is never inspected: only a rejected \<^verbatim>\<open>fetch\<close> reaches the \<^verbatim>\<open>catch\<close>.
\<close>

definition cleanup_begin ::
  "presigned_session \<Rightarrow> presigned_session \<Rightarrow> (presigned_session \<times> effect list) \<times> bool" where
  "cleanup_begin cl s =
     (if \<not> truthy (geminiFileName cl) \<and> \<not> truthy (r2ObjectKey cl) then ((s, []), False)
      else ((s\<lparr>statusMessage := ''Cleaning up'' @ ellipsis\<rparr>, cleanup_request cl), True))"

definition cleanup_settled :: "response awaited \<Rightarrow> presigned_session \<Rightarrow> presigned_session" where
  "cleanup_settled res s =
     (case res of
        Resolved r \<Rightarrow>
          s\<lparr>geminiFileName := None, r2ObjectKey := None,
            statusMessage := ''Temporary files deleted.''\<rparr>
      | Rejected e \<Rightarrow>
          s\<lparr>statusMessage := ''Cleanup attempted (see server logs for details).''\<rparr>)"

definition cleanupFiles ::
  "response awaited \<Rightarrow> presigned_session \<Rightarrow> presigned_session \<times> effect list" where
  \<comment> \<open>one call from the render whose state is \<open>s\<close>, nothing else writing the state meanwhile\<close>
  "cleanupFiles res s =
     (case cleanup_begin s s of
        ((s1, es), awaiting) \<Rightarrow> (if awaiting then cleanup_settled res s1 else s1, es))"

text \<open>
  The effect commented \<^verbatim>\<open>cleanup on unmount\<close>:
  \<^verbatim>\<open>useEffect(() => { return () => { if (geminiFileName || r2ObjectKey) cleanupFiles(); }; },
  [geminiFileName, r2ObjectKey])\<close>.
  React calls the returned function when the component unmounts, and also after every
  render in which one of the two dependencies differs from the render before. The function
  it calls is the one the earlier render returned, so it sees the earlier handles (\<open>prev\<close>)
  and calls the earlier \<^verbatim>\<open>cleanupFiles\<close>. All writes of one handler segment are rendered
  together.
\<close>

definition effect_cleanup ::
  "presigned_session \<Rightarrow> presigned_session \<Rightarrow> (presigned_session \<times> effect list) \<times> bool" where
  "effect_cleanup prev s =
     (if truthy (geminiFileName prev) \<or> truthy (r2ObjectKey prev) then cleanup_begin prev s
      else ((s, []), False))"

definition commit ::
  "presigned_session \<Rightarrow> presigned_session \<Rightarrow> (presigned_session \<times> effect list) \<times> bool" where
  \<comment> \<open>the render of state \<open>s\<close> that follows the render of state \<open>prev\<close>\<close>
  "commit prev s =
     (if geminiFileName prev \<noteq> geminiFileName s \<or> r2ObjectKey prev \<noteq> r2ObjectKey s
      then effect_cleanup prev s
      else ((s, []), False))"

definition select_file ::
  "asset option \<Rightarrow> presigned_session \<Rightarrow> (presigned_session \<times> effect list) \<times> bool" where
  \<comment> \<open>the user picks a file: \<^verbatim>\<open>handleFileChange\<close> and the render it causes\<close>
  "select_file f s = commit s (handleFileChange f s)"

definition release ::
  "response awaited \<Rightarrow> response awaited \<Rightarrow> presigned_session \<Rightarrow>
     presigned_session \<times> effect list" where
  \<comment> \<open>the user presses the clean-up button in the render of \<open>s\<close>: \<^verbatim>\<open>cleanupFiles\<close>, the render
      that follows, and the request of the effect cleanup if that render calls it;
      \<open>res\<close> settles the button's request, \<open>res'\<close> the effect's\<close>
  "release res res' s =
     (case cleanupFiles res s of
        (s1, e1) \<Rightarrow>
          (case commit s s1 of
             ((s2, e2), awaiting) \<Rightarrow>
               (if awaiting then cleanup_settled res' s2 else s2, e1 @ e2)))"

definition first_segment :: "string \<Rightarrow> string" where
  \<comment> \<open>\<^verbatim>\<open>name.split(".")[0]\<close>\<close>
  "first_segment n = takeWhile (\<lambda>c. c \<noteq> CHR ''.'') n"

definition default_download_name :: "asset option \<Rightarrow> string" where
  \<comment> \<open>\<^verbatim>\<open>`${file?.name.split(".")[0] || "transcript"}_transcript.docx`\<close>\<close>
  "default_download_name f =
     or_else (map_option (\<lambda>a. first_segment (file_name a)) f) ''transcript''
       @ ''_transcript.docx''"

definition docx_body :: "string \<Rightarrow> 'a session_scheme \<Rightarrow> docx_request" where
  \<comment> \<open>the JSON document both clients post to \<^verbatim>\<open>/generate_docx\<close>; \<open>dflt\<close> names a missing file\<close>
  "docx_body dflt s =
     \<lparr>docx_gemini_file_name = the (geminiFileName s),
      title_data =
        (caseInfo s)
          (''FILE_NAME'' \<mapsto> or_else (map_option file_name (file' s)) dflt,
           ''FILE_DURATION'' \<mapsto> or_else (audioDuration s) ''N/A''),
      docx_transcript_turns = the (transcriptTurns s)\<rparr>"

definition download_catch :: "thrown \<Rightarrow> presigned_session \<Rightarrow> presigned_session" where
  "download_catch e s =
     s\<lparr>error := Some (or_else (Some (message_of e)) ''Download failed''),
       statusMessage := [], isProcessing := False\<rparr>"

definition handleDownloadDocx ::
  "response awaited \<Rightarrow> presigned_session \<Rightarrow> presigned_session \<times> effect list" where
  "handleDownloadDocx res s =
     (if transcriptTurns s = None \<or> \<not> truthy (geminiFileName s)
      then (s\<lparr>error := Some ''Nothing to download.''\<rparr>, [])
      else
        (let s0 = s\<lparr>isProcessing := True, statusMessage := ''Generating DOCX'' @ ellipsis\<rparr>;
             req = Fetch (POST_generate_docx (docx_body ''file'' s))
         in case res of
              Rejected e \<Rightarrow> (download_catch e s0, [req])
            | Resolved r \<Rightarrow>
                if \<not> ok r
                then (download_catch
                        (Error (or_else (case json r of NotJson m \<Rightarrow> None | Json d \<Rightarrow> detail d)
                                  (statusText r))) s0,
                      [req])
                else (s0\<lparr>statusMessage := ''DOCX downloaded.'', isProcessing := False\<rparr>,
                      [req, Download (default_download_name (file' s)) (blob r)])))"

section \<open>The transcoding client\<close>

text \<open>
  The second client converts video to MP3 with an in-browser FFmpeg and posts the audio
  itself. Its handlers carry the suffix \<open>_tc\<close>. They are modelled as running to the end
  without another handler in between. Of the console output only \<^verbatim>\<open>console.error\<close>
  is recorded: it marks the failures a handler catches.
\<close>

definition handleFileChange_tc :: "asset option \<Rightarrow> transcoding_session \<Rightarrow> transcoding_session" where
  "handleFileChange_tc selectedFile s =
     (case selectedFile of
        None \<Rightarrow> s
      | Some f \<Rightarrow>
          s\<lparr>file' := Some f, transcriptTurns := None, error := None, statusMessage := [],
            geminiFileName := None, audioDuration := None\<rparr>)"

definition handleNumSpeakersChange_tc ::
  "string \<Rightarrow> transcoding_session \<Rightarrow> crash + transcoding_session" where
  "handleNumSpeakersChange_tc v s =
     (let count = or_one (parseInt10 v)
      in set_speakers count s)"

text \<open>The third client (a restyled page whose submit and download are stubs) resizes with both guards.\<close>

definition handleNumSpeakersChange_v3 :: "string \<Rightarrow> session \<Rightarrow> crash + session" where
  "handleNumSpeakersChange_v3 v s =
     (let n = js_max1 (or_one (parseInt10 v))
      in set_speakers n s)"

definition requestData_tc :: "transcoding_session \<Rightarrow> request_data" where
  "requestData_tc s =
     \<lparr>rd_case = caseInfo s,
      speaker_names =
        (if specifySpeakers s
         then Some (filter (\<lambda>name. name \<noteq> [] \<and> trim name \<noteq> []) (speakerNames s))
         else None)\<rparr>"

definition starts_with :: "string \<Rightarrow> string \<Rightarrow> bool" where
  "starts_with p s = (take (length p) s = p)"

definition last_segment :: "string \<Rightarrow> string" where
  \<comment> \<open>\<^verbatim>\<open>name.split('.').pop()\<close>\<close>
  "last_segment n = rev (takeWhile (\<lambda>c. c \<noteq> CHR ''.'') (rev n))"

definition inputFileName :: "string \<Rightarrow> asset \<Rightarrow> string" where
  "inputFileName dflt f = ''input.'' @ or_else (Some (last_segment (file_name f))) dflt"

definition convert_args :: "string \<Rightarrow> string list" where
  "convert_args inp =
     [''-i'', inp, ''-vn'', ''-acodec'', ''libmp3lame'', ''-ab'', ''192k'', ''-async'', ''1'',
      ''-loglevel'', ''error'', ''output.mp3'']"

definition probe_args :: "string \<Rightarrow> string list" where
  "probe_args inp =
     [''-i'', inp, ''-show_entries'', ''format=duration'', ''-of'',
      ''default=noprint_wrappers=1:nokey=1'', ''-v'', ''error'', ''-sexagesimal'']"

record tc_env =
  write_input :: "unit awaited"
  exec_convert :: "unit awaited"
  read_output :: "8 word list awaited"
  rewrite_input :: "unit awaited"
  exec_probe :: "unit awaited"
  transcribe_response_tc :: "response awaited"

text \<open>
  The duration probe sits in a \<^verbatim>\<open>try\<close>/\<^verbatim>\<open>catch\<close> of its own whose handler only
  logs; its output is not captured, so \<^verbatim>\<open>calculatedDuration\<close> stays \<^verbatim>\<open>null\<close>.
\<close>

definition run_probe :: "unit awaited \<Rightarrow> string \<Rightarrow> string \<Rightarrow> effect list" where
  "run_probe p inp label =
     Exec (probe_args inp) # (case p of Resolved _ \<Rightarrow> [] | Rejected x \<Rightarrow> [ConsoleError label])"

text \<open>
  Step 1 of the \<^verbatim>\<open>try\<close> block: the audio blob (its type and bytes), or what was thrown.
  \<^verbatim>\<open>if (!audioBlob)\<close> cannot fire: both branches that get there hold an object.
\<close>

definition normalize_tc ::
  "tc_env \<Rightarrow> asset \<Rightarrow> transcoding_session \<Rightarrow>
     (thrown + string \<times> 8 word list) \<times> transcoding_session \<times> effect list" where
  "normalize_tc env f s =
     (if starts_with ''video/'' (mime_type f) then
        if \<not> ffmpegLoaded s then (Inl (Error ''FFmpeg not loaded. Cannot convert video.''), s, [])
        else
          (let s1 = s\<lparr>statusMessage := ''Converting video to MP3 audio...''\<rparr>;
               inp = inputFileName ''mp4'' f;
               e1 = [WriteFile inp f];
               e2 = e1 @ [Exec (convert_args inp)];
               s2 = s1\<lparr>statusMessage := ''Reading converted audio...''\<rparr>;
               e3 = e2 @ [ReadFile ''output.mp3''];
               e4 = e3 @ [WriteFile inp f]
           in case write_input env of Rejected x \<Rightarrow> (Inl x, s1, e1) | Resolved _ \<Rightarrow>
             (case exec_convert env of Rejected x \<Rightarrow> (Inl x, s1, e2) | Resolved _ \<Rightarrow>
             (case read_output env of Rejected x \<Rightarrow> (Inl x, s2, e3) | Resolved data \<Rightarrow>
             (case rewrite_input env of Rejected x \<Rightarrow> (Inl x, s2, e4) | Resolved _ \<Rightarrow>
                (Inr (''audio/mp3'', data),
                 s2\<lparr>statusMessage := ''Video converted successfully.''\<rparr>,
                 e4 @ run_probe (exec_probe env) inp ''ffprobe failed:'')))))
      else if starts_with ''audio/'' (mime_type f) then
        (let s1 = s\<lparr>statusMessage := ''Processing audio file...''\<rparr>;
             inp = inputFileName ''mp3'' f
         in if ffmpegLoaded s
            then (case write_input env of
                    Rejected x \<Rightarrow> (Inl x, s1, [WriteFile inp f])
                  | Resolved _ \<Rightarrow>
                      (Inr (mime_type f, payload f), s1,
                       WriteFile inp f # run_probe (exec_probe env) inp ''ffprobe failed for audio:''))
            else (Inr (mime_type f, payload f), s1, []))
      else (Inl (Error (''Unsupported file type: '' @ mime_type f)), s, []))"

definition submit_catch_tc :: "thrown \<Rightarrow> transcoding_session \<Rightarrow> transcoding_session" where
  \<comment> \<open>\<^verbatim>\<open>setError(err.message || "An unexpected error occurred.")\<close>, then the \<^verbatim>\<open>finally\<close>\<close>
  "submit_catch_tc e s =
     s\<lparr>error := Some (or_else (case e of Error m \<Rightarrow> Some m | Thrown v \<Rightarrow> None)
                           ''An unexpected error occurred.''),
       statusMessage := [], isProcessing := False\<rparr>"

definition api_error :: "response \<Rightarrow> string \<Rightarrow> thrown" where
  \<comment> \<open>\<^verbatim>\<open>errorData = await response.json().catch(() => ({ detail: response.statusText }))\<close>,
      then \<^verbatim>\<open>new Error(`API Error (${response.status}): ${errorData.detail || dflt}`)\<close>\<close>
  "api_error r dflt =
     Error (''API Error ('' @ dec (status r) @ ''): '' @
            or_else (case json r of NotJson m \<Rightarrow> Some (statusText r) | Json d \<Rightarrow> detail d) dflt)"

definition after_transcribe_tc ::
  "response awaited \<Rightarrow> transcoding_session \<Rightarrow> transcoding_session \<times> effect list" where
  "after_transcribe_tc tr s =
     (let logged = [ConsoleError ''Error during submission:''] in
      case tr of
        Rejected e \<Rightarrow> (submit_catch_tc e s, logged)
      | Resolved r \<Rightarrow>
          if \<not> ok r then (submit_catch_tc (api_error r ''Unknown error'') s, logged)
          else (case json r of
                  NotJson m \<Rightarrow> (submit_catch_tc (Error m) s, logged)
                | Json result \<Rightarrow>
                    (s\<lparr>transcriptTurns := transcript_turns result,
                       geminiFileName := gemini_file_name result,
                       statusMessage := ''Transcription complete!'',
                       isProcessing := False\<rparr>,
                     [])))"

definition handleSubmit_tc ::
  "tc_env \<Rightarrow> transcoding_session \<Rightarrow> transcoding_session \<times> effect list" where
  "handleSubmit_tc env s =
     (case file' s of
        None \<Rightarrow> (s\<lparr>error := Some ''Please select a file first.''\<rparr>, [])
      | Some f \<Rightarrow>
          (let s0 = s\<lparr>isProcessing := True, error := None, transcriptTurns := None,
                      statusMessage := ''Starting process...'', geminiFileName := None,
                      audioDuration := None\<rparr>
           in case normalize_tc env f s0 of
                (Inl x, s1, es) \<Rightarrow>
                  (submit_catch_tc x s1, es @ [ConsoleError ''Error during submission:''])
              | (Inr (ty, bytes), s1, es) \<Rightarrow>
                  (let s2 = s1\<lparr>audioDuration := None,
                              statusMessage := ''Preparing data for upload...'',
                              statusMessage := ''Uploading audio and requesting transcript...''\<rparr>;
                       audio = \<lparr>file_name = ''processed_audio.mp3'', mime_type = ty,
                                payload = bytes\<rparr>
                   in case after_transcribe_tc (transcribe_response_tc env) s2 of
                        (s3, e3) \<Rightarrow>
                          (s3, es @ Fetch (POST_transcribe_audio (requestData_tc s) audio) # e3))))"

subsection \<open>The download name taken from \<^verbatim>\<open>content-disposition\<close>\<close>

text \<open>
  \<^verbatim>\<open>/filename[^;=\n]*=((['"]).*?\2|[^;\n]*)/.exec(disposition)\<close>. After the literal, the
  class \<^verbatim>\<open>[^;=\n]*\<close> can only stop in front of the first \<open>;\<close>, \<open>=\<close> or newline, and
  the match goes on only when that is \<open>=\<close>. Group 1 is a quoted text up to the first
  closing quote on the same line, or else everything up to \<open>;\<close> or a newline. The second
  alternative always matches, so the leftmost start that gets past \<open>=\<close> is the match.
\<close>

definition line_terminator :: "char \<Rightarrow> bool" where
  "line_terminator c = (c = CHR 0x0A \<or> c = CHR 0x0D)"

definition is_quote :: "char \<Rightarrow> bool" where
  "is_quote c = (c = CHR 0x27 \<or> c = CHR 0x22)"

fun quoted_rest :: "char \<Rightarrow> string \<Rightarrow> string option" where
  "quoted_rest q [] = None"
| "quoted_rest q (c # cs) =
     (if c = q then Some []
      else if line_terminator c then None
      else map_option ((#) c) (quoted_rest q cs))"

definition group1 :: "string \<Rightarrow> string" where
  "group1 r =
     (case r of
        [] \<Rightarrow> []
      | q # t \<Rightarrow>
          (case (if is_quote q then quoted_rest q t else None) of
             Some inner \<Rightarrow> q # inner @ [q]
           | None \<Rightarrow> takeWhile (\<lambda>c. c \<noteq> CHR '';'' \<and> c \<noteq> CHR 0x0A) r))"

definition match_here :: "string \<Rightarrow> string option" where
  "match_here s =
     (if starts_with ''filename'' s
      then (case dropWhile (\<lambda>c. c \<noteq> CHR '';'' \<and> c \<noteq> CHR ''='' \<and> c \<noteq> CHR 0x0A) (drop 8 s) of
              [] \<Rightarrow> None
            | c # r \<Rightarrow> if c = CHR ''='' then Some (group1 r) else None)
      else None)"

fun filenameRegex_exec :: "string \<Rightarrow> string option" where
  "filenameRegex_exec [] = None"
| "filenameRegex_exec (c # cs) =
     (case match_here (c # cs) of Some g \<Rightarrow> Some g | None \<Rightarrow> filenameRegex_exec cs)"

fun has_substring :: "string \<Rightarrow> string \<Rightarrow> bool" where
  \<comment> \<open>\<^verbatim>\<open>s.indexOf(p) !== -1\<close>\<close>
  "has_substring p [] = (p = [])"
| "has_substring p (c # cs) = (starts_with p (c # cs) \<or> has_substring p cs)"

definition downloadFilename :: "asset option \<Rightarrow> string option \<Rightarrow> string" where
  "downloadFilename f disposition =
     (if truthy disposition \<and> has_substring ''attachment'' (the disposition)
      then (case filenameRegex_exec (the disposition) of
              None \<Rightarrow> default_download_name f
            | Some g \<Rightarrow> if g \<noteq> [] then filter (\<lambda>c. \<not> is_quote c) g
                        else default_download_name f)
      else default_download_name f)"

definition download_catch_tc :: "thrown \<Rightarrow> transcoding_session \<Rightarrow> transcoding_session" where
  "download_catch_tc e s =
     s\<lparr>error := Some (or_else (case e of Error m \<Rightarrow> Some m | Thrown v \<Rightarrow> None)
                           ''Failed to download DOCX.''),
       statusMessage := [], isProcessing := False\<rparr>"

definition handleDownloadDocx_tc ::
  "response awaited \<Rightarrow> transcoding_session \<Rightarrow> transcoding_session \<times> effect list" where
  "handleDownloadDocx_tc res s =
     (if transcriptTurns s = None \<or> \<not> truthy (geminiFileName s)
      then (s\<lparr>error := Some ''No transcript available to download or missing file identifier.''\<rparr>,
            [])
      else
        (let s0 = s\<lparr>error := None, statusMessage := ''Generating DOCX...'', isProcessing := True\<rparr>;
             req = Fetch (POST_generate_docx (docx_body ''unknown_file'' s))
         in case res of
              Rejected e \<Rightarrow>
                (download_catch_tc e s0, [req, ConsoleError ''Error downloading DOCX:''])
            | Resolved r \<Rightarrow>
                if \<not> ok r
                then (download_catch_tc (api_error r ''Failed to generate DOCX'') s0,
                      [req, ConsoleError ''Error downloading DOCX:''])
                else (s0\<lparr>statusMessage := ''DOCX downloaded successfully.'',
                         isProcessing := False\<rparr>,
                      [req, Download (downloadFilename (file' s) (content_disposition r)) (blob r)])))"

section \<open>Sessions and responses used as examples\<close>

text \<open>The initial values of the \<^verbatim>\<open>useState\<close> cells.\<close>

definition initial_state :: presigned_session where
  "initial_state =
     \<lparr>file' = None, caseInfo = Map.empty, specifySpeakers = False, numSpeakers = Num 1,
      speakerNames = [[]], isProcessing = False, transcriptTurns = None, error = None,
      statusMessage = [], geminiFileName = None, audioDuration = None, r2ObjectKey = None\<rparr>"

definition initial_state_tc :: transcoding_session where
  "initial_state_tc =
     \<lparr>file' = None, caseInfo = Map.empty, specifySpeakers = False, numSpeakers = Num 1,
      speakerNames = [[]], isProcessing = False, transcriptTurns = None, error = None,
      statusMessage = [], geminiFileName = None, audioDuration = None, ffmpegLoaded = False\<rparr>"

definition interview :: asset where
  "interview = \<lparr>file_name = ''interview.mp3'', mime_type = ''audio/mpeg'', payload = [73, 68, 51]\<rparr>"

definition hearing :: asset where
  "hearing = \<lparr>file_name = ''hearing.wav'', mime_type = ''audio/wav'', payload = [82, 73, 70, 70]\<rparr>"

definition no_fields :: json_body where
  "no_fields =
     \<lparr>detail = None, upload_url = None, object_key = None, transcript_turns = None,
      gemini_file_name = None, r2_object_key = None\<rparr>"

definition http :: "nat \<Rightarrow> string \<Rightarrow> parsed \<Rightarrow> response" where
  "http code txt b =
     \<lparr>status = code, statusText = txt, content_disposition = None, json = b, blob = []\<rparr>"

definition demo_turns :: "turn list" where
  "demo_turns =
     [\<lparr>speaker = ''SPEAKER 1'', turn_text = ''Good morning.''\<rparr>,
      \<lparr>speaker = ''SPEAKER 2'', turn_text = ''Good morning, counsel.''\<rparr>]"

definition presigned_fields :: json_body where
  "presigned_fields =
     no_fields\<lparr>upload_url := Some ''https://r2.example/put'',
               object_key := Some ''uploads/interview.mp3''\<rparr>"

definition presigned_ok :: response where
  "presigned_ok = http 200 ''OK'' (Json presigned_fields)"

definition uploaded_ok :: response where
  "uploaded_ok = http 200 ''OK'' (NotJson ''Unexpected end of JSON input'')"

definition transcribed_fields :: json_body where
  "transcribed_fields =
     no_fields\<lparr>transcript_turns := Some demo_turns, gemini_file_name := Some ''files/abc''\<rparr>"

definition transcribed_ok :: response where
  "transcribed_ok = http 200 ''OK'' (Json transcribed_fields)"

definition all_ok :: submit_env where
  "all_ok =
     \<lparr>presign_response = Resolved presigned_ok,
      upload_response = Resolved uploaded_ok,
      transcribe_response = Resolved transcribed_ok,
      duration_probe = Loaded 150\<rparr>"

definition all_ok_tc :: tc_env where
  "all_ok_tc =
     \<lparr>write_input = Resolved (), exec_convert = Resolved (), read_output = Resolved [255, 251],
      rewrite_input = Resolved (), exec_probe = Resolved (),
      transcribe_response_tc = Resolved transcribed_ok\<rparr>"

definition selected_session :: presigned_session where
  \<comment> \<open>the user has picked \<open>interview\<close>\<close>
  "selected_session = handleFileChange (Some interview) initial_state"

definition ready_session :: presigned_session where
  \<comment> \<open>and a run has gone through\<close>
  "ready_session = fst (handleSubmit all_ok selected_session)"

definition selected_session_tc :: transcoding_session where
  \<comment> \<open>FFmpeg has loaded and the user has picked \<open>interview\<close>\<close>
  "selected_session_tc =
     handleFileChange_tc (Some interview) (initial_state_tc\<lparr>ffmpegLoaded := True\<rparr>)"


definition refused :: response where
  \<comment> \<open>a non-success answer of the service, with its own explanation\<close>
  "refused = http 500 ''Internal Server Error'' (Json (no_fields\<lparr>detail := Some ''boom''\<rparr>))"

definition alice :: ustring where
  \<comment> \<open>\<^verbatim>\<open>"ALICE"\<close>\<close>
  "alice = [0x41, 0x4C, 0x49, 0x43, 0x45]"

definition named_speakers :: "ustring list" where
  \<comment> \<open>\<^verbatim>\<open>[" ", "ALICE", ""]\<close>: three speakers declared, one named\<close>
  "named_speakers = [[0x20], alice, []]"

definition docx_named :: response where
  \<comment> \<open>a document sent with \<^verbatim>\<open>content-disposition: attachment; filename="server.docx"\<close>\<close>
  "docx_named =
     \<lparr>status = 200, statusText = ''OK'',
      content_disposition = Some (''attachment; filename='' @ [CHR 0x22] @ ''server.docx'' @ [CHR 0x22]),
      json = NotJson ''Unexpected token P in JSON at position 0'',
      blob = [80, 75, 3, 4]\<rparr>"

section \<open>Notions of the specification\<close>

definition blank :: "ustring \<Rightarrow> bool" where
  \<comment> \<open>an empty or whitespace-only identifier\<close>
  "blank n = (\<forall>c \<in> set n. js_whitespace c)"

definition replace_at :: "nat \<Rightarrow> asset option \<Rightarrow> nat \<Rightarrow> presigned_session \<Rightarrow> presigned_session" where
  \<comment> \<open>the user picks another file while \<^verbatim>\<open>handleSubmit\<close> is suspended at its \<open>k\<close>-th await.
      When the replaced session held a handle the render sends the effect's release
      request; in this schedule that request is still unanswered when the run ends.\<close>
  "replace_at k g = (\<lambda>i. if i = k then (\<lambda>s. fst (fst (select_file g s))) else id)"

section \<open>Properties\<close>

subsection \<open>Duration formatting\<close>

lemma floor_div60: "\<lfloor>s / 60\<rfloor> = \<lfloor>s :: real\<rfloor> div 60"
  using floor_divide_real_eq_div [of 60 s] by simp

lemma floor_div3600: "\<lfloor>s / 3600\<rfloor> = \<lfloor>s :: real\<rfloor> div 3600"
  using floor_divide_real_eq_div [of 3600 s] by simp

lemma js_fmod_nonneg: "0 \<le> s \<Longrightarrow> 0 < d \<Longrightarrow> js_fmod s d = s - d * of_int \<lfloor>s / d\<rfloor>"
  by (simp add: js_fmod_def js_trunc_def not_less [symmetric] divide_less_0_iff)

lemma minutes_eq:
  assumes "0 \<le> s"
  shows "\<lfloor>js_fmod s 3600 / 60\<rfloor> = \<lfloor>s / 60\<rfloor> mod 60"
proof -
  have "js_fmod s 3600 / 60 = s / 60 - of_int (60 * \<lfloor>s / 3600\<rfloor>)"
    using assms by (simp add: js_fmod_nonneg)
  then have "\<lfloor>js_fmod s 3600 / 60\<rfloor> = \<lfloor>s / 60\<rfloor> - 60 * \<lfloor>s / 3600\<rfloor>"
    by (simp only: floor_diff_of_int)
  also have "\<dots> = \<lfloor>s\<rfloor> div 60 - 60 * (\<lfloor>s\<rfloor> div 3600)"
    by (simp only: floor_div60 floor_div3600)
  also have "\<dots> = (\<lfloor>s\<rfloor> div 60) mod 60"
    using zdiv_zmult2_eq [of 60 "\<lfloor>s\<rfloor>" 60] by (simp add: minus_mult_div_eq_mod)
  finally show ?thesis by (simp only: floor_div60)
qed

lemma seconds_eq:
  assumes "0 \<le> s"
  shows "\<lfloor>js_fmod s 60\<rfloor> = \<lfloor>s\<rfloor> mod 60"
proof -
  have "js_fmod s 60 = s - of_int (60 * \<lfloor>s / 60\<rfloor>)"
    using assms by (simp add: js_fmod_nonneg)
  then have "\<lfloor>js_fmod s 60\<rfloor> = \<lfloor>s\<rfloor> - 60 * \<lfloor>s / 60\<rfloor>"
    by (simp only: floor_diff_of_int)
  also have "\<dots> = \<lfloor>s\<rfloor> - 60 * (\<lfloor>s\<rfloor> div 60)"
    by (simp only: floor_div60)
  also have "\<dots> = \<lfloor>s\<rfloor> mod 60"
    by (simp add: minus_mult_div_eq_mod)
  finally show ?thesis .
qed

lemma js_rem_nonneg: "0 \<le> a \<Longrightarrow> js_rem a 60 = a mod 60"
  by (cases "a = 0") (simp_all add: js_rem_def)

lemma js_string_of_int_nonneg: "0 \<le> i \<Longrightarrow> js_string_of_int i = dec (nat i)"
  by (simp add: js_string_of_int_def)

lemma hhmmss_spec:
  assumes "0 \<le> s" "s < 216000"
  shows "hhmmss s = spec_HHMMSS s"
proof -
  have h: "0 \<le> \<lfloor>s / 3600\<rfloor>" "\<lfloor>s / 3600\<rfloor> < 60"
    using assms by (simp_all add: floor_less_iff)
  have m: "0 \<le> \<lfloor>s / 60\<rfloor>" and sec: "0 \<le> \<lfloor>s\<rfloor>"
    using assms by simp_all
  show ?thesis
    using h m sec
    by (simp add: hhmmss_def spec_HHMMSS_def js_rem_nonneg js_string_of_int_nonneg)
qed

lemma formatDuration_spec:
  assumes "0 \<le> s"
  shows "formatDuration s = spec_HHMMSS s"
proof -
  have h: "0 \<le> \<lfloor>s / 3600\<rfloor>" and m: "0 \<le> \<lfloor>s / 60\<rfloor> mod 60"
    and sec: "0 \<le> \<lfloor>s\<rfloor> mod 60"
    using assms by simp_all
  show ?thesis
    using h m sec assms
    by (simp add: formatDuration_def spec_HHMMSS_def minutes_eq seconds_eq
          js_string_of_int_nonneg Let_def)
qed

lemmas render_defs =
  js_rem_def js_fmod_def js_trunc_def js_string_of_int_def padStart_def dec.simps digit_char_def

lemma hhmmss_150: "hhmmss 150 = ''00:02:30''"
  by (simp add: hhmmss_def render_defs)

text \<open>
  C8, as stated, fails at sixty hours: \<^verbatim>\<open>hhmmss\<close> reduces the hour count modulo 60 as it
  does minutes and seconds, \<^verbatim>\<open>formatDuration\<close> does not.
\<close>

theorem hhmmss_formatDuration_differ_at_60h:
  "hhmmss 216000 = ''00:00:00'' \<and> formatDuration 216000 = ''60:00:00''"
  by (simp add: hhmmss_def formatDuration_def render_defs)

text \<open>
  C8 (amended): for every number of seconds \<open>s\<close> with \<open>0 \<le> s < 216000\<close> (below sixty
  hours) \<^verbatim>\<open>hhmmss(s)\<close> of the presigned client equals \<^verbatim>\<open>formatDuration(s)\<close> of the
  transcoding client, and both are \<open>\<lfloor>s/3600\<rfloor>\<close> hours, \<open>\<lfloor>s/60\<rfloor> mod 60\<close> minutes and
  \<open>\<lfloor>s\<rfloor> mod 60\<close> seconds, each zero-padded to at least two digits and joined by colons.
\<close>

theorem hhmmss_eq_formatDuration:
  assumes "0 \<le> s" and "s < 216000"
  shows "hhmmss s = formatDuration s \<and> formatDuration s = spec_HHMMSS s"
  using assms by (simp add: hhmmss_spec formatDuration_spec)

theorem hhmmss_eq_formatDuration_witness:
  "(0::real) \<le> 150 \<and> (150::real) < 216000 \<and> hhmmss 150 = formatDuration 150
   \<and> formatDuration 150 = spec_HHMMSS 150 \<and> hhmmss 150 = ''00:02:30''"
  using hhmmss_eq_formatDuration [of 150] hhmmss_150 by simp

subsection \<open>The example sessions, evaluated\<close>

lemmas example_defs =
  all_ok_def all_ok_tc_def presigned_ok_def presigned_fields_def uploaded_ok_def
  transcribed_ok_def transcribed_fields_def http_def ok_def no_fields_def
  initial_state_def initial_state_tc_def

lemmas presigned_run_defs =
  handleSubmit_def handleSubmit_async_def submit_begin_def after_presign_def after_upload_def
  after_transcribe_def after_duration_def getDuration_def submit_catch_def message_of_def
  request_data_json_def presign_result_def upload_result_def transcribe_result_def

lemmas release_defs =
  release_def cleanupFiles_def cleanup_begin_def cleanup_settled_def cleanup_request_def
  commit_def effect_cleanup_def

lemmas replace_defs =
  replace_at_def select_file_def commit_def effect_cleanup_def cleanup_begin_def
  handleFileChange_def

lemma selected_session_eq: "selected_session = initial_state\<lparr>file' := Some interview\<rparr>"
  by (simp add: selected_session_def handleFileChange_def initial_state_def)

lemma ready_session_eq:
  "ready_session =
     initial_state\<lparr>file' := Some interview, transcriptTurns := Some demo_turns,
       geminiFileName := Some ''files/abc'', r2ObjectKey := Some ''uploads/interview.mp3'',
       audioDuration := Some ''00:02:30'', statusMessage := ''Transcription complete!''\<rparr>"
  unfolding ready_session_def selected_session_eq
  by (simp add: presigned_run_defs example_defs truthy_def hhmmss_150)

lemma selected_session_tc_eq:
  "selected_session_tc = initial_state_tc\<lparr>file' := Some interview, ffmpegLoaded := True\<rparr>"
  by (simp add: selected_session_tc_def handleFileChange_tc_def initial_state_tc_def)


subsection \<open>Releasing the remote files\<close>

text \<open>
  A release is the press of the clean-up button with what follows from it: the call of
  \<^verbatim>\<open>cleanupFiles\<close>, the render after it, and the effect cleanup that render may call.
  A handle is set when the code's own test finds it truthy.
\<close>




text \<open>
  An answered release sends its request twice. The effect is commented
  \<^verbatim>\<open>cleanup on unmount\<close> but depends on the two handles, so the render that clears them
  calls the cleanup of the render before, which still sees them. C1 (amended) says nothing
  about the number of requests.
\<close>

lemma answered_release_sends_twice:
  "truthy (geminiFileName s) \<or> truthy (r2ObjectKey s) \<Longrightarrow>
     snd (release (Resolved r) res' s) = cleanup_request s @ cleanup_request s"
  by (auto simp add: release_defs truthy_def)

subsection \<open>The duration probe\<close>




subsection \<open>Replacing the file during a run\<close>

text \<open>
  C3, as stated, fails: the client has no run counter and \<^verbatim>\<open>handleFileChange\<close> cancels
  nothing. When the user picks \<open>hearing\<close> while the transcription request for \<open>interview\<close>
  is in flight, the answer is stored all the same: the session shows \<open>hearing\<close> with the
  transcript, handle and duration of \<open>interview\<close>.
\<close>

theorem late_completion_overwrites:
  "file' (fst (handleSubmit_async (replace_at 2 (Some hearing)) all_ok selected_session)) = Some hearing
   \<and> transcriptTurns (fst (handleSubmit_async (replace_at 2 (Some hearing)) all_ok selected_session))
       = Some demo_turns
   \<and> geminiFileName (fst (handleSubmit_async (replace_at 2 (Some hearing)) all_ok selected_session))
       = Some ''files/abc''
   \<and> audioDuration (fst (handleSubmit_async (replace_at 2 (Some hearing)) all_ok selected_session))
       = Some ''00:02:30''
   \<and> statusMessage (fst (handleSubmit_async (replace_at 2 (Some hearing)) all_ok selected_session))
       = ''Transcription complete!''"
  unfolding selected_session_eq
  by (simp add: presigned_run_defs replace_defs example_defs truthy_def hhmmss_150)

text \<open>
  C3 (amended): when the user replaces the selected file while a run is in flight, the
  replacement stores the new file and clears transcript, handles, duration and error; it
  clears the status line too unless the replaced session held a handle (then the effect
  cleanup starts releasing it and the status says so); it leaves the processing flag as
  it is, and the run is not cancelled. Whatever the session has become by the time an
  awaited response arrives (\<open>L0\<close> to \<open>L3\<close>, for any code that ran meanwhile), the run
  applies its writes to that state. A failure of the presign, upload or transcription
  step, of any kind, and a failed duration probe store their error message and clear the
  status line and the processing flag. A transcription success stores its transcript and
  handles; a probe success stores the duration and the completed status and clears the
  processing flag.
\<close>

theorem in_flight_run_is_applied:
  assumes "file' s = Some f"
    and "L0 = others 0 (s\<lparr>isProcessing := True, error := None,
                            statusMessage := ''Creating secure upload'' @ ellipsis\<rparr>)"
    and "L1 = others 1 (L0\<lparr>statusMessage := ''Uploading file'' @ ellipsis\<rparr>)"
    and "L2 = others 2 (L1\<lparr>statusMessage := ''Requesting transcript'' @ ellipsis\<rparr>)"
    and "L3 = others 3 (L2\<lparr>transcriptTurns := transcript_turns tj,
                            geminiFileName := gemini_file_name tj,
                            r2ObjectKey := (if truthy (r2_object_key tj) then r2_object_key tj
                                            else object_key b),
                            statusMessage := ''Calculating duration'' @ ellipsis\<rparr>)"
  shows "(presign_result (presign_response env) = Inl e \<longrightarrow>
            fst (handleSubmit_async others env s)
              = L0\<lparr>error := Some (message_of e), statusMessage := [], isProcessing := False\<rparr>)
       \<and> (presign_result (presign_response env) = Inr b
            \<and> upload_result (upload_response env) = Inl e \<longrightarrow>
            fst (handleSubmit_async others env s)
              = L1\<lparr>error := Some (message_of e), statusMessage := [], isProcessing := False\<rparr>)
       \<and> (presign_result (presign_response env) = Inr b
            \<and> upload_result (upload_response env) = Inr ()
            \<and> transcribe_result (transcribe_response env) = Inl e \<longrightarrow>
            fst (handleSubmit_async others env s)
              = L2\<lparr>error := Some (message_of e), statusMessage := [], isProcessing := False\<rparr>)
       \<and> (presign_result (presign_response env) = Inr b
            \<and> upload_result (upload_response env) = Inr ()
            \<and> transcribe_result (transcribe_response env) = Inr tj
            \<and> duration_probe env = Unreadable \<longrightarrow>
            fst (handleSubmit_async others env s)
              = L3\<lparr>error := Some ''Could not read duration'', statusMessage := [],
                   isProcessing := False\<rparr>)
       \<and> (presign_result (presign_response env) = Inr b
            \<and> upload_result (upload_response env) = Inr ()
            \<and> transcribe_result (transcribe_response env) = Inr tj
            \<and> duration_probe env = Loaded d \<longrightarrow>
            fst (handleSubmit_async others env s)
              = L3\<lparr>audioDuration := Some (hhmmss d),
                   statusMessage := ''Transcription complete!'', isProcessing := False\<rparr>)
       \<and> fst (fst (select_file g L))
           = L\<lparr>file' := g, transcriptTurns := None, error := None, geminiFileName := None,
               r2ObjectKey := None, audioDuration := None,
               statusMessage := (if truthy (geminiFileName L) \<or> truthy (r2ObjectKey L)
                                 then ''Cleaning up'' @ ellipsis else [])\<rparr>"
    (is "(?P0 \<longrightarrow> ?Q0) \<and> (?P1 \<longrightarrow> ?Q1) \<and> (?P2 \<longrightarrow> ?Q2) \<and> (?P3 \<longrightarrow> ?Q3) \<and> (?P4 \<longrightarrow> ?Q4) \<and> ?R")
proof -
  note run = handleSubmit_async_def submit_begin_def after_presign_def after_upload_def
    after_transcribe_def after_duration_def getDuration_def submit_catch_def
  have q0: ?Q0 if ?P0
    using that assms(1,2) by (simp add: run)
  have q1: ?Q1 if ?P1
    using that assms(1,2,3) by (simp add: run)
  have q2: ?Q2 if ?P2
    using that assms(1,2,3,4) by (simp add: run)
  have q3: ?Q3 if ?P3
    using that assms by (simp add: run message_of_def)
  have q4: ?Q4 if ?P4
    using that assms by (simp add: run)
  have r: ?R
    by (auto simp add: select_file_def commit_def effect_cleanup_def cleanup_begin_def
          handleFileChange_def truthy_def split: option.splits)
  from q0 q1 q2 q3 q4 r show ?thesis
    by blast
qed

theorem in_flight_run_is_applied_witness:
  "fst (handleSubmit_async (replace_at 2 (Some hearing)) all_ok selected_session)
     = ready_session\<lparr>file' := Some hearing\<rparr>
   \<and> fst (handleSubmit_async (replace_at 2 (Some hearing))
            (all_ok\<lparr>transcribe_response := Resolved refused\<rparr>) selected_session)
     = initial_state\<lparr>file' := Some hearing, error := Some ''boom''\<rparr>
   \<and> fst (handleSubmit_async (replace_at 0 (Some hearing))
            (all_ok\<lparr>presign_response := Rejected (Error ''Failed to fetch'')\<rparr>) selected_session)
     = initial_state\<lparr>file' := Some hearing, error := Some ''Failed to fetch''\<rparr>
   \<and> fst (fst (select_file (Some hearing) ready_session))
     = initial_state\<lparr>file' := Some hearing, statusMessage := ''Cleaning up'' @ ellipsis\<rparr>"
proof -
  have f: "file' selected_session = Some interview"
    by (simp add: selected_session_eq initial_state_def)
  have ok: "presign_result (presign_response all_ok) = Inr presigned_fields
      \<and> upload_result (upload_response all_ok) = Inr ()
      \<and> transcribe_result (transcribe_response all_ok) = Inr transcribed_fields
      \<and> duration_probe all_ok = Loaded 150"
    by (simp add: presign_result_def upload_result_def transcribe_result_def example_defs)
  have refused: "presign_result (presign_response (all_ok\<lparr>transcribe_response := Resolved refused\<rparr>))
        = Inr presigned_fields
      \<and> upload_result (upload_response (all_ok\<lparr>transcribe_response := Resolved refused\<rparr>)) = Inr ()
      \<and> transcribe_result (transcribe_response (all_ok\<lparr>transcribe_response := Resolved refused\<rparr>))
        = Inl (Error ''boom'')"
    by (simp add: presign_result_def upload_result_def transcribe_result_def example_defs
          refused_def or_else_def)
  have lost: "presign_result
                (presign_response (all_ok\<lparr>presign_response := Rejected (Error ''Failed to fetch'')\<rparr>))
        = Inl (Error ''Failed to fetch'')"
    by (simp add: presign_result_def)
  note a = in_flight_run_is_applied
    [OF f refl refl refl refl, where others = "replace_at 2 (Some hearing)" and env = all_ok
       and b = presigned_fields and tj = transcribed_fields and d = 150
       and g = "Some hearing" and L = ready_session]
  note b = in_flight_run_is_applied
    [OF f refl refl refl refl, where others = "replace_at 2 (Some hearing)"
       and env = "all_ok\<lparr>transcribe_response := Resolved refused\<rparr>"
       and b = presigned_fields and e = "Error ''boom''"]
  note c = in_flight_run_is_applied
    [OF f refl refl refl refl, where others = "replace_at 0 (Some hearing)"
       and env = "all_ok\<lparr>presign_response := Rejected (Error ''Failed to fetch'')\<rparr>"
       and e = "Error ''Failed to fetch''"]
  from a b c ok refused lost show ?thesis
    by (simp add: replace_defs ready_session_eq selected_session_eq initial_state_def
          hhmmss_150 transcribed_fields_def presigned_fields_def no_fields_def truthy_def
          message_of_def)
qed

subsection \<open>The speaker names that are sent\<close>

lemma trim_empty_iff: "trim n = [] \<longleftrightarrow> blank n"
proof
  assume "blank n"
  then have d: "dropWhile js_whitespace n = []"
    by (simp add: blank_def dropWhile_eq_Nil_conv)
  show "trim n = []"
    unfolding trim_def d by simp
next
  assume t: "trim n = []"
  show "blank n"
  proof (rule ccontr)
    assume "\<not> blank n"
    then have ne: "dropWhile js_whitespace n \<noteq> []"
      by (simp add: blank_def dropWhile_eq_Nil_conv)
    then have "\<not> js_whitespace (hd (dropWhile js_whitespace n))"
      by (rule hd_dropWhile)
    moreover have "hd (dropWhile js_whitespace n) \<in> set (rev (dropWhile js_whitespace n))"
      using ne by simp
    ultimately have "dropWhile js_whitespace (rev (dropWhile js_whitespace n)) \<noteq> []"
      by (auto simp add: dropWhile_eq_Nil_conv simp del: set_rev)
    with t show False
      by (simp add: trim_def)
  qed
qed

lemma presigned_transcribe_request:
  "Fetch (POST_transcribe_key rd key) \<in> set (snd (handleSubmit_async others env s))
     \<Longrightarrow> rd = request_data_json s"
  by (auto simp add: handleSubmit_async_def submit_begin_def after_presign_def after_upload_def
        after_transcribe_def
      split: option.splits sum.splits)

lemma normalize_tc_no_fetch: "normalize_tc env f s = (res, s', es) \<Longrightarrow> Fetch q \<notin> set es"
  by (auto simp add: normalize_tc_def run_probe_def Let_def
      split: if_splits awaited.splits)

lemma tc_transcribe_request:
  "Fetch (POST_transcribe_audio rd a) \<in> set (snd (handleSubmit_tc env t))
     \<Longrightarrow> rd = requestData_tc t"
  by (auto simp add: handleSubmit_tc_def after_transcribe_tc_def Let_def
      dest: normalize_tc_no_fetch
      split: option.splits awaited.splits parsed.splits if_splits prod.splits sum.splits)

text \<open>
  C4: in every request to the transcription endpoint, \<^verbatim>\<open>speaker_names\<close> is \<^verbatim>\<open>null\<close>
  when \<^verbatim>\<open>specifySpeakers\<close> is false, and otherwise the identifier list of the state the
  handler was called in without its blank entries; no name that is sent is empty or
  whitespace-only. This holds for both clients, whatever the responses are and whatever
  other handlers do meanwhile.
\<close>

theorem speaker_names_sent:
  "(Fetch (POST_transcribe_key rd key) \<in> set (snd (handleSubmit_async others env s)) \<longrightarrow>
      speaker_names rd
        = (if specifySpeakers s then Some (filter (\<lambda>n. \<not> blank n) (speakerNames s)) else None)
      \<and> (\<forall>names. speaker_names rd = Some names \<longrightarrow> (\<forall>n \<in> set names. \<not> blank n)))
   \<and> (Fetch (POST_transcribe_audio rd' a) \<in> set (snd (handleSubmit_tc env_tc t)) \<longrightarrow>
      speaker_names rd'
        = (if specifySpeakers t then Some (filter (\<lambda>n. \<not> blank n) (speakerNames t)) else None)
      \<and> (\<forall>names. speaker_names rd' = Some names \<longrightarrow> (\<forall>n \<in> set names. \<not> blank n)))"
proof (intro conjI impI)
  assume "Fetch (POST_transcribe_key rd key) \<in> set (snd (handleSubmit_async others env s))"
  then have rd: "rd = request_data_json s"
    by (rule presigned_transcribe_request)
  show "speaker_names rd
        = (if specifySpeakers s then Some (filter (\<lambda>n. \<not> blank n) (speakerNames s)) else None)"
    by (simp add: rd request_data_json_def trim_empty_iff)
  show "\<forall>names. speaker_names rd = Some names \<longrightarrow> (\<forall>n \<in> set names. \<not> blank n)"
    by (auto simp add: rd request_data_json_def trim_empty_iff split: if_splits)
next
  assume "Fetch (POST_transcribe_audio rd' a) \<in> set (snd (handleSubmit_tc env_tc t))"
  then have rd: "rd' = requestData_tc t"
    by (rule tc_transcribe_request)
  have eq: "(\<lambda>name. name \<noteq> [] \<and> trim name \<noteq> []) = (\<lambda>n. \<not> blank n)"
    by (auto simp add: trim_empty_iff blank_def)
  show "speaker_names rd'
        = (if specifySpeakers t then Some (filter (\<lambda>n. \<not> blank n) (speakerNames t)) else None)"
    by (simp add: rd requestData_tc_def eq)
  show "\<forall>names. speaker_names rd' = Some names \<longrightarrow> (\<forall>n \<in> set names. \<not> blank n)"
    by (auto simp add: rd requestData_tc_def eq split: if_splits)
qed

theorem speaker_names_sent_witness:
  "Fetch (POST_transcribe_key \<lparr>rd_case = Map.empty, speaker_names = Some [alice]\<rparr>
            (Some ''uploads/interview.mp3''))
     \<in> set (snd (handleSubmit_async (\<lambda>k. id) all_ok
                   (selected_session\<lparr>specifySpeakers := True, numSpeakers := Num 3,
                                     speakerNames := named_speakers\<rparr>)))
   \<and> Fetch (POST_transcribe_audio \<lparr>rd_case = Map.empty, speaker_names = Some [alice]\<rparr>
            \<lparr>file_name = ''processed_audio.mp3'', mime_type = ''audio/mpeg'',
             payload = [73, 68, 51]\<rparr>)
     \<in> set (snd (handleSubmit_tc all_ok_tc
                   (selected_session_tc\<lparr>specifySpeakers := True, numSpeakers := Num 3,
                                        speakerNames := named_speakers\<rparr>)))
   \<and> filter (\<lambda>n. \<not> blank n) named_speakers = [alice]
   \<and> \<not> blank alice"
proof -
  let ?rd = "\<lparr>rd_case = Map.empty, speaker_names = Some [alice]\<rparr>"
  let ?s = "selected_session\<lparr>specifySpeakers := True, numSpeakers := Num 3,
                             speakerNames := named_speakers\<rparr>"
  let ?t = "selected_session_tc\<lparr>specifySpeakers := True, numSpeakers := Num 3,
                                speakerNames := named_speakers\<rparr>"
  let ?a = "\<lparr>file_name = ''processed_audio.mp3'', mime_type = ''audio/mpeg'',
             payload = [73, 68, 51]\<rparr>"
  have m: "Fetch (POST_transcribe_key ?rd (Some ''uploads/interview.mp3''))
             \<in> set (snd (handleSubmit_async (\<lambda>k. id) all_ok ?s))"
    by (simp add: selected_session_eq presigned_run_defs example_defs named_speakers_def
          alice_def trim_def js_whitespace_def)
  have m': "Fetch (POST_transcribe_audio ?rd ?a) \<in> set (snd (handleSubmit_tc all_ok_tc ?t))"
    by (simp add: selected_session_tc_eq handleSubmit_tc_def normalize_tc_def
          after_transcribe_tc_def starts_with_def Let_def run_probe_def example_defs
          interview_def requestData_tc_def named_speakers_def alice_def trim_def
          js_whitespace_def)
  have sp: "specifySpeakers ?s" "speakerNames ?s = named_speakers"
    by simp_all
  from speaker_names_sent
         [where rd = ?rd and key = "Some ''uploads/interview.mp3''" and others = "\<lambda>k. id"
            and env = all_ok and s = ?s and rd' = ?rd and a = ?a and env_tc = all_ok_tc
            and t = ?t] m m' sp
  show ?thesis
    by auto
qed

subsection \<open>A refused transcription request\<close>





subsection \<open>Export without a transcript\<close>

text \<open>
  C6: when the transcription handle or the transcript is absent, \<^verbatim>\<open>handleDownloadDocx\<close>
  of either client only sets the error message (nothing to download) and sends nothing;
  every other cell is unchanged.
\<close>

theorem export_without_transcript:
  "(transcriptTurns s = None \<or> geminiFileName s = None \<longrightarrow>
      handleDownloadDocx res s = (s\<lparr>error := Some ''Nothing to download.''\<rparr>, []))
   \<and> (transcriptTurns t = None \<or> geminiFileName t = None \<longrightarrow>
      handleDownloadDocx_tc res t
        = (t\<lparr>error := Some ''No transcript available to download or missing file identifier.''\<rparr>,
           []))"
  by (auto simp add: handleDownloadDocx_def Let_def handleDownloadDocx_tc_def truthy_def)

theorem export_without_transcript_witness:
  "transcriptTurns selected_session = None \<and> geminiFileName selected_session_tc = None
   \<and> handleDownloadDocx (Resolved docx_named) selected_session
       = (selected_session\<lparr>error := Some ''Nothing to download.''\<rparr>, [])
   \<and> handleDownloadDocx_tc (Resolved docx_named) selected_session_tc
       = (selected_session_tc
            \<lparr>error := Some ''No transcript available to download or missing file identifier.''\<rparr>,
          [])"
  using export_without_transcript
          [of selected_session "Resolved docx_named" selected_session_tc]
  by (simp add: selected_session_eq selected_session_tc_eq initial_state_def initial_state_tc_def)

subsection \<open>The name of the exported document\<close>







subsection \<open>The speaker count and the identifier list\<close>

lemma resize_names_crash:
  "resize_names (Num n) prev = Inl RangeError \<longleftrightarrow> n - int (length prev) > 4294967295"
  by (auto simp add: resize_names_def js_gt_length_def)

lemma length_resize_names:
  "1 \<le> n \<Longrightarrow> resize_names (Num n) prev = Inr names \<Longrightarrow> int (length names) = n"
  by (auto simp add: resize_names_def js_gt_length_def slice0_def split: if_splits)

lemma handleNumSpeakersChange_v3_invariant:
  assumes "handleNumSpeakersChange_v3 v s = Inr s'"
  shows "numSpeakers s' = Num (int (length (speakerNames s')))"
proof -
  have "\<exists>n. js_max1 (or_one (parseInt10 v)) = Num n \<and> 1 \<le> n"
    by (cases "parseInt10 v") (simp_all add: js_max1_def or_one_def)
  then obtain n where "js_max1 (or_one (parseInt10 v)) = Num n" and "1 \<le> n"
    by blast
  with assms show ?thesis
    by (auto simp add: handleNumSpeakersChange_v3_def set_speakers_def Let_def
          length_resize_names split: sum.splits)
qed

lemma changeNumSpeakers_invariant:
  assumes "parseInt10 (if v = [] then ''1'' else v) = Num k"
    and "changeNumSpeakers v s = Inr s'"
  shows "numSpeakers s' = Num (max 1 k) \<and> int (length (speakerNames s')) = max 1 k"
  using assms
  by (auto simp add: changeNumSpeakers_def set_speakers_def js_max1_def Let_def
        length_resize_names split: sum.splits)

lemma changeNumSpeakers_crash:
  "changeNumSpeakers ''4294967297'' initial_state = Inl RangeError"
  by (simp add: changeNumSpeakers_def set_speakers_def parseInt10_def js_whitespace_def
       is_digit_def digit_val_def js_max1_def resize_names_def js_gt_length_def
       initial_state_def)

text \<open>
  C9: the resize is meant to keep \<^verbatim>\<open>speakerNames.length\<close> equal to \<^verbatim>\<open>numSpeakers\<close>, and
  the third client does whenever the change goes through
  (\<open>handleNumSpeakersChange_v3_invariant\<close>). The presigned client guards against an empty
  and a non-positive value but not against \<^verbatim>\<open>NaN\<close>: the input \<^verbatim>\<open>.5\<close> gives
  \<^verbatim>\<open>numSpeakers = NaN\<close> and an empty list. The transcoding client guards against
  \<^verbatim>\<open>NaN\<close> and zero but not against a negative value: \<^verbatim>\<open>-3\<close> gives
  \<^verbatim>\<open>numSpeakers = -3\<close> and an empty list.
\<close>

theorem changeNumSpeakers_breaks_invariant:
  "changeNumSpeakers ''.5'' initial_state
     = Inr (initial_state\<lparr>numSpeakers := NaN, speakerNames := []\<rparr>)
   \<and> handleNumSpeakersChange_tc ''-3'' initial_state_tc
     = Inr (initial_state_tc\<lparr>numSpeakers := Num (- 3), speakerNames := []\<rparr>)"
  by (simp add: changeNumSpeakers_def handleNumSpeakersChange_tc_def set_speakers_def
       parseInt10_def js_whitespace_def is_digit_def digit_val_def js_max1_def or_one_def
       resize_names_def js_gt_length_def slice0_def initial_state_def initial_state_tc_def)

subsection \<open>Submitting without a file\<close>

text \<open>
  C10: with no file selected, \<^verbatim>\<open>handleSubmit\<close> of either client only sets the error
  message and returns: nothing is sent and every other cell is unchanged.
\<close>

theorem submit_without_file:
  "(file' s = None \<longrightarrow>
      handleSubmit_async others env s = (s\<lparr>error := Some ''Choose a file first.''\<rparr>, []))
   \<and> (file' t = None \<longrightarrow>
      handleSubmit_tc env_tc t = (t\<lparr>error := Some ''Please select a file first.''\<rparr>, []))"
  by (simp add: handleSubmit_async_def submit_begin_def handleSubmit_tc_def)

theorem submit_without_file_witness:
  "file' initial_state = None \<and> file' initial_state_tc = None
   \<and> handleSubmit all_ok initial_state
       = (initial_state\<lparr>error := Some ''Choose a file first.''\<rparr>, [])
   \<and> handleSubmit_tc all_ok_tc initial_state_tc
       = (initial_state_tc\<lparr>error := Some ''Please select a file first.''\<rparr>, [])"
  using submit_without_file [of initial_state "\<lambda>k. id" all_ok initial_state_tc all_ok_tc]
  by (simp add: handleSubmit_def initial_state_def initial_state_tc_def)

end
